theory Spec2Isabelle
  imports Main "HOL-Library.Word" "HOL-Library.Product_Lexorder"
begin

section \<open>The data model of crdt\_types.hpp\<close>

text \<open>
  The header declares the node identifier (\<^verbatim>\<open>using CrdtNodeId = uint64_t\<close>), the column
  key (\<^verbatim>\<open>using CrdtKey = std::string\<close>) and the struct \<^verbatim>\<open>Change<K, V>\<close>. The unsigned
  64-bit and 32-bit integers are words of that width, \<^verbatim>\<open>std::optional\<close> is \<open>option\<close>, and
  the template parameters \<^verbatim>\<open>K\<close> and \<^verbatim>\<open>V\<close> are the type variables \<open>'k\<close> and \<open>'v\<close>.
\<close>

type_synonym CrdtNodeId = "64 word"

type_synonym CrdtKey = string

text \<open>
  The eight data members of \<^verbatim>\<open>struct Change\<close>, in declaration order. \<open>col_name = None\<close>
  is \<^verbatim>\<open>std::nullopt\<close>, the tombstone of the record; \<open>value = None\<close> is the deletion of the
  column.
\<close>

record ('k, 'v) Change =
  record_id :: 'k
  col_name :: "CrdtKey option"
  "value" :: "'v option"
  col_version :: "64 word"
  db_version :: "64 word"
  node_id :: CrdtNodeId
  local_db_version :: "64 word"
  flags :: "32 word"

text \<open>
  The parameterized constructor
  \<^verbatim>\<open>Change(K rid, std::optional<CrdtKey> cname, std::optional<V> val, uint64_t cver,
          uint64_t dver, CrdtNodeId nid, uint64_t ldb_ver = 0, uint32_t f = 0)\<close>
  with its member initializer list: each member is initialized from the argument of the
  same position (the moved arguments keep their value).
\<close>

definition Change_ctor ::
  "'k \<Rightarrow> CrdtKey option \<Rightarrow> 'v option \<Rightarrow> 64 word \<Rightarrow> 64 word \<Rightarrow> CrdtNodeId \<Rightarrow> 64 word \<Rightarrow> 32 word
    \<Rightarrow> ('k, 'v) Change" where
  "Change_ctor rid cname val cver dver nid ldb_ver f =
     \<lparr>record_id = rid, col_name = cname, value = val, col_version = cver, db_version = dver,
      node_id = nid, local_db_version = ldb_ver, flags = f\<rparr>"

text \<open>
  The two call forms the default arguments add: a call with seven arguments takes
  \<^verbatim>\<open>f = 0\<close>, a call with six arguments takes \<^verbatim>\<open>ldb_ver = 0\<close> and \<^verbatim>\<open>f = 0\<close>.
\<close>

definition Change_ctor7 ::
  "'k \<Rightarrow> CrdtKey option \<Rightarrow> 'v option \<Rightarrow> 64 word \<Rightarrow> 64 word \<Rightarrow> CrdtNodeId \<Rightarrow> 64 word
    \<Rightarrow> ('k, 'v) Change" where
  "Change_ctor7 rid cname val cver dver nid ldb_ver =
     Change_ctor rid cname val cver dver nid ldb_ver 0"

definition Change_ctor6 ::
  "'k \<Rightarrow> CrdtKey option \<Rightarrow> 'v option \<Rightarrow> 64 word \<Rightarrow> 64 word \<Rightarrow> CrdtNodeId \<Rightarrow> ('k, 'v) Change" where
  "Change_ctor6 rid cname val cver dver nid = Change_ctor rid cname val cver dver nid 0 0"

text \<open>
  The defaulted constructor \<^verbatim>\<open>Change() = default\<close>. The struct has no default member
  initializers, so this constructor default-initializes every member: the two
  \<^verbatim>\<open>std::optional\<close> members become \<^verbatim>\<open>std::nullopt\<close>, \<^verbatim>\<open>record_id\<close> becomes whatever
  default-initialization of \<^verbatim>\<open>K\<close> gives (\<open>rid0\<close>), and the five integer members are not
  written at all: they keep the bytes the object's storage held before the call. That
  storage is the argument \<open>raw\<close>. (Value-initialization, \<^verbatim>\<open>Change<K, V>()\<close>, is the caller
  zeroing the storage first: \<open>raw\<close> all zero.)
\<close>

record raw_scalars =
  raw_col_version :: "64 word"
  raw_db_version :: "64 word"
  raw_node_id :: "64 word"
  raw_local_db_version :: "64 word"
  raw_flags :: "32 word"

definition Change_default :: "'k \<Rightarrow> raw_scalars \<Rightarrow> ('k, 'v) Change" where
  "Change_default rid0 raw =
     \<lparr>record_id = rid0, col_name = None, value = None,
      col_version = raw_col_version raw, db_version = raw_db_version raw,
      node_id = raw_node_id raw, local_db_version = raw_local_db_version raw,
      flags = raw_flags raw\<rparr>"

section \<open>The Merge Engine, Column Version Table and Change Log of the specification\<close>

text \<open>
  Modelled from the spec: the outcome of the Merge Engine's \<^verbatim>\<open>apply\<close> (section 4.2,
  \<^verbatim>\<open>Outcome\<close> is one of \<^verbatim>\<open>Applied\<close>, \<^verbatim>\<open>Superseded\<close>, \<^verbatim>\<open>Ignored\<close>). The header is the only
  source file; the engine is not in it.
\<close>

datatype Outcome = Applied | Superseded | Ignored

text \<open>
  Modelled from the spec: an entry of the Column Version Table (section 4.3), which
  maps \<^verbatim>\<open>(record_id, col_name)\<close> to \<^verbatim>\<open>(col_version, db_version, node_id, value_or_tombstone)\<close>.
  The table itself is absent from the sources.
\<close>

record 'v StoredState =
  st_col_version :: "64 word"
  st_db_version :: "64 word"
  st_node_id :: CrdtNodeId
  st_value :: "'v option"

type_synonym ('k, 'v) ColumnVersionTable = "'k \<times> CrdtKey option \<Rightarrow> 'v StoredState option"

text \<open>
  Modelled from the spec: the state of one node, which is absent from the sources. It holds
  the Column Version Table (the stored state, "the authoritative current winner cache"),
  the append-only Change Log (section 4.4) and the node's current logical clock
  (section 4.1), which tags the log entries.
\<close>

record ('k, 'v) Node =
  table :: "('k, 'v) ColumnVersionTable"
  change_log :: "('k, 'v) Change list"
  clock :: "64 word"

text \<open>
  Modelled from the spec: the key a change is compared under, \<^verbatim>\<open>(record_id, col_name)\<close>,
  "or record-level state if \<^verbatim>\<open>col_name = none\<close>" (section 4.2).
\<close>

definition key_of :: "('k, 'v) Change \<Rightarrow> 'k \<times> CrdtKey option" where
  "key_of c = (record_id c, col_name c)"

text \<open>
  Modelled from the spec: what step 3 of section 4.2 stores for a winning change, "overwrite
  stored value/tombstone state with incoming's \<^verbatim>\<open>value\<close>, advance stored
  \<^verbatim>\<open>col_version\<close>/\<^verbatim>\<open>db_version\<close>/\<^verbatim>\<open>node_id\<close>".
\<close>

definition stored_of :: "('k, 'v) Change \<Rightarrow> 'v StoredState" where
  "stored_of c =
     \<lparr>st_col_version = col_version c, st_db_version = db_version c, st_node_id = node_id c,
      st_value = value c\<rparr>"

text \<open>
  Modelled from the spec: the comparison of step 2 of section 4.2, incoming against local,
  "higher \<^verbatim>\<open>col_version\<close> wins; if equal, higher \<^verbatim>\<open>db_version\<close> wins; if still equal, higher
  \<^verbatim>\<open>node_id\<close> wins".
\<close>

definition incoming_wins :: "('k, 'v) Change \<Rightarrow> 'v StoredState \<Rightarrow> bool" where
  "incoming_wins c e \<longleftrightarrow>
     st_col_version e < col_version c \<or>
     (col_version c = st_col_version e \<and>
       (st_db_version e < db_version c \<or>
        (db_version c = st_db_version e \<and> st_node_id e < node_id c)))"

text \<open>
  Modelled from the spec: the check of step 5 of section 4.2, made "before applying a
  column-level change": the record's own tombstone entry (\<^verbatim>\<open>col_name = none\<close>) "has a
  \<^verbatim>\<open>col_version\<close> greater than the incoming column change's \<^verbatim>\<open>col_version\<close>". A record-level
  change is never subject to it.
\<close>

definition tombstone_dominates :: "('k, 'v) Node \<Rightarrow> ('k, 'v) Change \<Rightarrow> bool" where
  "tombstone_dominates s c =
     (case col_name c of
        None \<Rightarrow> False
      | Some cn \<Rightarrow>
          (case table s (record_id c, None) of
             None \<Rightarrow> False
           | Some t \<Rightarrow> col_version c < st_col_version t))"

text \<open>
  Modelled from the spec: the side effect of an applied change (section 4.2): the new state
  is written to the table, and the call "appends an entry to the Change Log", "tagged with
  the local node's current clock for \<^verbatim>\<open>local_db_version\<close>".
\<close>

definition write_state :: "('k, 'v) Node \<Rightarrow> ('k, 'v) Change \<Rightarrow> ('k, 'v) Node" where
  "write_state s c =
     s\<lparr>table := (table s)(key_of c \<mapsto> stored_of c),
       change_log := change_log s @ [c\<lparr>local_db_version := clock s\<rparr>]\<rparr>"

text \<open>
  Modelled from the spec: the Merge Engine's \<^verbatim>\<open>apply(change) -> Outcome\<close> of section 4.2,
  which is absent from the sources. Step 5 comes first (it is made before a column-level
  change is applied); then step 1 (no local entry: apply unconditionally), steps 2 and 3
  (the incoming change wins the comparison: overwrite) and step 4 (discard). A call that
  does not apply is a no-op on the state.
\<close>

definition apply_change :: "('k, 'v) Node \<Rightarrow> ('k, 'v) Change \<Rightarrow> Outcome \<times> ('k, 'v) Node" where
  "apply_change s c =
     (if tombstone_dominates s c then (Ignored, s)
      else
        (case table s (key_of c) of
           None \<Rightarrow> (Applied, write_state s c)
         | Some e \<Rightarrow> if incoming_wins c e then (Applied, write_state s c) else (Superseded, s)))"

text \<open>The state a sequence of changes leaves, applied in the order of the list.\<close>

fun apply_all :: "('k, 'v) Node \<Rightarrow> ('k, 'v) Change list \<Rightarrow> ('k, 'v) Node" where
  "apply_all s [] = s"
| "apply_all s (c # cs) = apply_all (snd (apply_change s c)) cs"

section \<open>Concrete inputs\<close>

text \<open>A node that has stored nothing yet.\<close>

definition empty_node :: "(nat, string) Node" where
  "empty_node = \<lparr>table = Map.empty, change_log = [], clock = 0\<rparr>"

text \<open>
  The two concurrent writes of the specification's first scenario: node 1 sets column
  "name" of record 42 to "Alice" at \<open>col_version = 1\<close>, \<open>db_version = 10\<close>; node 2 sets it to
  "Bob" at \<open>col_version = 1\<close>, \<open>db_version = 11\<close>.
\<close>

definition alice :: "(nat, string) Change" where
  "alice = Change_ctor6 42 (Some ''name'') (Some ''Alice'') 1 10 1"

definition bob :: "(nat, string) Change" where
  "bob = Change_ctor6 42 (Some ''name'') (Some ''Bob'') 1 11 2"

text \<open>
  Two writes that differ in the writer only: the same column, \<open>col_version\<close> and
  \<open>db_version\<close>, written by node 1 and by node 2.
\<close>

definition tie_low :: "(nat, string) Change" where
  "tie_low = Change_ctor6 42 (Some ''name'') (Some ''Carol'') 3 30 1"

definition tie_high :: "(nat, string) Change" where
  "tie_high = Change_ctor6 42 (Some ''name'') (Some ''Dave'') 3 30 2"

text \<open>
  The specification's second scenario: record 7 is deleted at \<open>col_version = 2\<close>, and a stale
  column edit for record 7 at \<open>col_version = 1\<close> arrives later.
\<close>

definition delete7 :: "(nat, string) Change" where
  "delete7 = Change_ctor6 7 None None 2 20 1"

definition stale7 :: "(nat, string) Change" where
  "stale7 = Change_ctor6 7 (Some ''name'') (Some ''late'') 1 5 2"

text \<open>
  A column of record 7 written at \<open>col_version = 1\<close>, the record deleted at
  \<open>col_version = 5\<close>, and a later edit of the same column at \<open>col_version = 3\<close>.
\<close>

definition edit7_v1 :: "(nat, string) Change" where
  "edit7_v1 = Change_ctor6 7 (Some ''name'') (Some ''first'') 1 5 2"

definition delete7_v5 :: "(nat, string) Change" where
  "delete7_v5 = Change_ctor6 7 None None 5 50 1"

definition edit7_v3 :: "(nat, string) Change" where
  "edit7_v3 = Change_ctor6 7 (Some ''name'') (Some ''third'') 3 60 2"

text \<open>A record-level change that carries a value, and two changes that differ in \<open>flags\<close> only.\<close>

definition record_level_with_value :: "(nat, string) Change" where
  "record_level_with_value = Change_ctor6 7 None (Some ''payload'') 1 1 1"

definition flagged_0 :: "(nat, string) Change" where
  "flagged_0 = Change_ctor 7 (Some ''name'') (Some ''x'') 1 1 1 0 0"

definition flagged_1 :: "(nat, string) Change" where
  "flagged_1 = Change_ctor 7 (Some ''name'') (Some ''x'') 1 1 1 0 1"

section \<open>Auxiliary facts\<close>

lemmas eval_defs =
  apply_change_def tombstone_dominates_def write_state_def key_of_def stored_of_def
  incoming_wins_def empty_node_def Change_ctor6_def Change_ctor7_def Change_ctor_def

text \<open>
  The comparison of step 2 is the strict lexicographic order on the triples
  \<open>(col_version, db_version, node_id)\<close>, local below incoming.
\<close>

lemma incoming_wins_lex:
  "incoming_wins c e \<longleftrightarrow>
     (st_col_version e, st_db_version e, st_node_id e) < (col_version c, db_version c, node_id c)"
  by (auto simp: incoming_wins_def less_prod_def')

lemma not_wins_own: "\<not> incoming_wins c (stored_of c)"
  by (simp add: incoming_wins_def stored_of_def)

lemma wins_trans: "incoming_wins c2 (stored_of c1) \<Longrightarrow> incoming_wins c1 e \<Longrightarrow> incoming_wins c2 e"
  by (auto simp: incoming_wins_def stored_of_def)

lemma wins_asym: "incoming_wins c2 (stored_of c1) \<Longrightarrow> \<not> incoming_wins c1 (stored_of c2)"
  by (auto simp: incoming_wins_def stored_of_def)

lemma loses_below:
  "incoming_wins c2 (stored_of c1) \<Longrightarrow> \<not> incoming_wins c2 e \<Longrightarrow> \<not> incoming_wins c1 e"
  by (auto simp: incoming_wins_def stored_of_def)

lemma wins_total:
  "(col_version c1, db_version c1, node_id c1) \<noteq> (col_version c2, db_version c2, node_id c2)
    \<Longrightarrow> incoming_wins c2 (stored_of c1) \<or> incoming_wins c1 (stored_of c2)"
  by (auto simp: incoming_wins_def stored_of_def)

text \<open>
  A tombstone that dominates a change dominates every lower change of the same key, and
  writing a change of the same key leaves the tombstone check as it was (a column-level
  change never writes the record-level entry).
\<close>

lemma dominated_below:
  "key_of c1 = key_of c2 \<Longrightarrow> incoming_wins c2 (stored_of c1) \<Longrightarrow> tombstone_dominates s c2
    \<Longrightarrow> tombstone_dominates s c1"
  by (auto simp: key_of_def incoming_wins_def stored_of_def tombstone_dominates_def
      split: option.splits)

lemma dominated_write:
  "key_of c1 = key_of c2 \<Longrightarrow> tombstone_dominates (write_state s c1) c2 = tombstone_dominates s c2"
  by (auto simp: key_of_def tombstone_dominates_def write_state_def split: option.splits)

lemma table_write: "table (write_state s c) = (table s)(key_of c \<mapsto> stored_of c)"
  by (simp add: write_state_def)

text \<open>
  Of two changes of one key, the lower one leaves no trace in the table: applied before
  or after the higher one, the table is the one the higher change alone leaves.
\<close>

lemma lower_absorbed_before:
  assumes "key_of c1 = key_of c2" "incoming_wins c2 (stored_of c1)"
  shows "table (snd (apply_change (snd (apply_change s c1)) c2)) = table (snd (apply_change s c2))"
  using assms dominated_below[OF assms, of s] dominated_write[OF assms(1), of s]
    wins_trans[OF assms(2)]
  by (auto simp: apply_change_def table_write split: option.splits)

lemma lower_absorbed_after:
  assumes "key_of c1 = key_of c2" "incoming_wins c2 (stored_of c1)"
  shows "table (snd (apply_change (snd (apply_change s c2)) c1)) = table (snd (apply_change s c2))"
  using assms dominated_below[OF assms, of s] dominated_write[OF assms(1)[symmetric], of s]
    wins_asym[OF assms(2)] loses_below[OF assms(2)]
  by (auto simp: apply_change_def table_write split: option.splits)

section \<open>The struct and its constructors\<close>

text \<open>
  C1, as the header has it. The claim holds that no \<^verbatim>\<open>Change\<close> can have \<open>col_name = None\<close>
  together with \<open>value = Some v\<close>. The struct declares \<^verbatim>\<open>col_name\<close> and \<^verbatim>\<open>value\<close> as two
  independent \<^verbatim>\<open>std::optional\<close> members, and the constructor builds a record-level change
  that carries a value.
\<close>

theorem record_level_with_value_exists:
  "col_name record_level_with_value = None \<and> value record_level_with_value = Some ''payload''"
  by (simp add: record_level_with_value_def Change_ctor6_def Change_ctor_def)

text \<open>
  C1, amended: \<^verbatim>\<open>col_name\<close> and \<^verbatim>\<open>value\<close> of a \<^verbatim>\<open>Change\<close> are two independent optionals. The
  constructor stores whatever pair of optionals it is given, unchanged and unchecked, so
  every combination is constructible, the one with \<open>col_name = None\<close> and
  \<open>value = Some v\<close> included.
\<close>

theorem optionals_independent:
  "col_name (Change_ctor rid cname val cver dver nid ldb_ver f) = cname \<and>
   value (Change_ctor rid cname val cver dver nid ldb_ver f) = val \<and>
   col_name (Change_ctor rid None (Some v) cver dver nid ldb_ver f) = None \<and>
   value (Change_ctor rid None (Some v) cver dver nid ldb_ver f) = Some v"
  by (simp add: Change_ctor_def)

text \<open>
  C6, as the header has it. The claim holds that \<^verbatim>\<open>flags\<close> is not a field of the struct.
  In the header it is one: two changes that agree on the six synchronized fields and on
  \<^verbatim>\<open>local_db_version\<close> differ as values when their \<^verbatim>\<open>flags\<close> differ.
\<close>

theorem flags_on_struct:
  "record_id flagged_0 = record_id flagged_1 \<and> col_name flagged_0 = col_name flagged_1 \<and>
   value flagged_0 = value flagged_1 \<and> col_version flagged_0 = col_version flagged_1 \<and>
   db_version flagged_0 = db_version flagged_1 \<and> node_id flagged_0 = node_id flagged_1 \<and>
   local_db_version flagged_0 = local_db_version flagged_1 \<and>
   flags flagged_0 = 0 \<and> flags flagged_1 = 1 \<and> flagged_0 \<noteq> flagged_1"
  by (simp add: flagged_0_def flagged_1_def Change_ctor_def)

text \<open>
  C6, amended: \<^verbatim>\<open>flags\<close> is a data member of the \<^verbatim>\<open>Change\<close> struct itself, as
  \<^verbatim>\<open>local_db_version\<close> is. The constructor stores its trailing arguments \<^verbatim>\<open>f\<close> and
  \<^verbatim>\<open>ldb_ver\<close> in them, and two changes built from otherwise equal arguments are equal
  exactly when these two members are equal: a \<^verbatim>\<open>Change\<close> value carries both.
\<close>

theorem flags_is_a_field:
  "flags (Change_ctor rid cname val cver dver nid ldb_ver f) = f \<and>
   local_db_version (Change_ctor rid cname val cver dver nid ldb_ver f) = ldb_ver \<and>
   (Change_ctor rid cname val cver dver nid ldb_ver f =
      Change_ctor rid cname val cver dver nid ldb_ver f' \<longleftrightarrow> f = f') \<and>
   (Change_ctor rid cname val cver dver nid ldb_ver f =
      Change_ctor rid cname val cver dver nid ldb_ver' f \<longleftrightarrow> ldb_ver = ldb_ver')"
  by (simp add: Change_ctor_def)

text \<open>
  C8: \<^verbatim>\<open>CrdtNodeId\<close> is an unsigned 64-bit integer. The \<^verbatim>\<open>node_id\<close> of every change is a value
  between 0 and \<open>2 ^ 64 - 1\<close>, any two node identifiers are comparable (one is below, equal
  to or above the other), and they are equal exactly when their values are.
\<close>

theorem node_id_unsigned_64:
  "0 \<le> unat (node_id c :: CrdtNodeId) \<and> unat (node_id c) \<le> 2 ^ 64 - 1 \<and>
   (node_id c \<le> node_id d \<or> node_id d \<le> node_id c) \<and>
   (node_id c < node_id d \<or> node_id c = node_id d \<or> node_id d < node_id c) \<and>
   (unat (node_id c) = unat (node_id d) \<longleftrightarrow> node_id c = node_id d)"
proof -
  have "unat (node_id c) < 2 ^ 64"
    using unsigned_less[of "node_id c", where 'a = nat] by simp
  then have "unat (node_id c) \<le> 2 ^ 64 - 1" by simp
  moreover have "node_id c \<le> node_id d \<or> node_id d \<le> node_id c" by (rule linear)
  moreover have "node_id c < node_id d \<or> node_id c = node_id d \<or> node_id d < node_id c"
    by (rule less_linear)
  ultimately show ?thesis by (simp add: word_unat_eq_iff)
qed

text \<open>
  C9: the parameterized constructor stores \<^verbatim>\<open>rid\<close>, \<^verbatim>\<open>cname\<close>, \<^verbatim>\<open>val\<close>, \<^verbatim>\<open>cver\<close>, \<^verbatim>\<open>dver\<close> and
  \<^verbatim>\<open>nid\<close> unchanged in \<^verbatim>\<open>record_id\<close>, \<^verbatim>\<open>col_name\<close>, \<^verbatim>\<open>value\<close>, \<^verbatim>\<open>col_version\<close>, \<^verbatim>\<open>db_version\<close> and
  \<^verbatim>\<open>node_id\<close>, whatever the trailing arguments are; called with the two trailing arguments
  omitted, it yields exactly these six fields with \<^verbatim>\<open>local_db_version\<close> and \<^verbatim>\<open>flags\<close> equal
  to 0 (and with \<^verbatim>\<open>f\<close> alone omitted, \<^verbatim>\<open>flags\<close> equal to 0).
\<close>

theorem Change_ctor_fields:
  "record_id (Change_ctor rid cname val cver dver nid ldb_ver f) = rid \<and>
   col_name (Change_ctor rid cname val cver dver nid ldb_ver f) = cname \<and>
   value (Change_ctor rid cname val cver dver nid ldb_ver f) = val \<and>
   col_version (Change_ctor rid cname val cver dver nid ldb_ver f) = cver \<and>
   db_version (Change_ctor rid cname val cver dver nid ldb_ver f) = dver \<and>
   node_id (Change_ctor rid cname val cver dver nid ldb_ver f) = nid \<and>
   Change_ctor6 rid cname val cver dver nid =
     \<lparr>record_id = rid, col_name = cname, value = val, col_version = cver, db_version = dver,
      node_id = nid, local_db_version = 0, flags = 0\<rparr> \<and>
   Change_ctor7 rid cname val cver dver nid ldb_ver =
     \<lparr>record_id = rid, col_name = cname, value = val, col_version = cver, db_version = dver,
      node_id = nid, local_db_version = ldb_ver, flags = 0\<rparr>"
  by (simp add: Change_ctor_def Change_ctor6_def Change_ctor7_def)

text \<open>
  C10: the default constructor does not initialize the five integer members. Each of
  \<^verbatim>\<open>col_version\<close>, \<^verbatim>\<open>db_version\<close>, \<^verbatim>\<open>node_id\<close>, \<^verbatim>\<open>local_db_version\<close> and \<^verbatim>\<open>flags\<close> of a
  default-constructed change is what the storage held before, whatever that was, and
  there is storage for which none of the five is 0: the constructor guarantees no value
  for them.
\<close>

theorem Change_default_scalars:
  "col_version (Change_default rid0 raw :: ('k, 'v) Change) = raw_col_version raw \<and>
   db_version (Change_default rid0 raw :: ('k, 'v) Change) = raw_db_version raw \<and>
   node_id (Change_default rid0 raw :: ('k, 'v) Change) = raw_node_id raw \<and>
   local_db_version (Change_default rid0 raw :: ('k, 'v) Change) = raw_local_db_version raw \<and>
   flags (Change_default rid0 raw :: ('k, 'v) Change) = raw_flags raw \<and>
   (\<exists>raw'. col_version (Change_default rid0 raw' :: ('k, 'v) Change) \<noteq> 0 \<and>
      db_version (Change_default rid0 raw' :: ('k, 'v) Change) \<noteq> 0 \<and>
      node_id (Change_default rid0 raw' :: ('k, 'v) Change) \<noteq> 0 \<and>
      local_db_version (Change_default rid0 raw' :: ('k, 'v) Change) \<noteq> 0 \<and>
      flags (Change_default rid0 raw' :: ('k, 'v) Change) \<noteq> 0)"
proof -
  let ?ones = "\<lparr>raw_col_version = 1, raw_db_version = 1, raw_node_id = 1,
                raw_local_db_version = 1, raw_flags = 1\<rparr>"
  have "col_version (Change_default rid0 ?ones :: ('k, 'v) Change) \<noteq> 0 \<and>
      db_version (Change_default rid0 ?ones :: ('k, 'v) Change) \<noteq> 0 \<and>
      node_id (Change_default rid0 ?ones :: ('k, 'v) Change) \<noteq> 0 \<and>
      local_db_version (Change_default rid0 ?ones :: ('k, 'v) Change) \<noteq> 0 \<and>
      flags (Change_default rid0 ?ones :: ('k, 'v) Change) \<noteq> 0"
    by (simp add: Change_default_def)
  then have "\<exists>raw'. col_version (Change_default rid0 raw' :: ('k, 'v) Change) \<noteq> 0 \<and>
      db_version (Change_default rid0 raw' :: ('k, 'v) Change) \<noteq> 0 \<and>
      node_id (Change_default rid0 raw' :: ('k, 'v) Change) \<noteq> 0 \<and>
      local_db_version (Change_default rid0 raw' :: ('k, 'v) Change) \<noteq> 0 \<and>
      flags (Change_default rid0 raw' :: ('k, 'v) Change) \<noteq> 0"
    by (rule exI)
  moreover have "col_version (Change_default rid0 raw :: ('k, 'v) Change) = raw_col_version raw \<and>
   db_version (Change_default rid0 raw :: ('k, 'v) Change) = raw_db_version raw \<and>
   node_id (Change_default rid0 raw :: ('k, 'v) Change) = raw_node_id raw \<and>
   local_db_version (Change_default rid0 raw :: ('k, 'v) Change) = raw_local_db_version raw \<and>
   flags (Change_default rid0 raw :: ('k, 'v) Change) = raw_flags raw"
    by (simp add: Change_default_def)
  ultimately show ?thesis by blast
qed

section \<open>The Merge Engine\<close>

text \<open>
  C2: \<^verbatim>\<open>apply\<close> is commutative. For two changes of the same key (the same \<^verbatim>\<open>record_id\<close> and
  \<^verbatim>\<open>col_name\<close>) whose triples \<open>(col_version, db_version, node_id)\<close> differ, applying them to
  any node in either order leaves the same stored state, which is the Column Version
  Table. (The Change Log is the history of arrivals and is not part of the stored state.)
\<close>

theorem apply_commutative:
  assumes "record_id c1 = record_id c2"
    and "col_name c1 = col_name c2"
    and "(col_version c1, db_version c1, node_id c1) \<noteq> (col_version c2, db_version c2, node_id c2)"
  shows "table (snd (apply_change (snd (apply_change s c1)) c2)) =
         table (snd (apply_change (snd (apply_change s c2)) c1))"
proof -
  have k: "key_of c1 = key_of c2"
    using assms(1,2) by (simp add: key_of_def)
  from wins_total[OF assms(3)] show ?thesis
  proof
    assume w: "incoming_wins c2 (stored_of c1)"
    show ?thesis
      by (simp only: lower_absorbed_before[OF k w] lower_absorbed_after[OF k w])
  next
    assume w: "incoming_wins c1 (stored_of c2)"
    show ?thesis
      by (simp only: lower_absorbed_before[OF k[symmetric] w]
          lower_absorbed_after[OF k[symmetric] w])
  qed
qed

text \<open>
  The first scenario of the specification: "Alice" and "Bob" written concurrently to
  column "name" of record 42. In both orders the node ends with Bob's write.
\<close>

theorem apply_commutative_witness:
  "record_id alice = record_id bob \<and> col_name alice = col_name bob \<and>
   (col_version alice, db_version alice, node_id alice) \<noteq>
     (col_version bob, db_version bob, node_id bob) \<and>
   table (snd (apply_change (snd (apply_change empty_node alice)) bob)) =
     table (snd (apply_change (snd (apply_change empty_node bob)) alice)) \<and>
   table (snd (apply_change (snd (apply_change empty_node bob)) alice)) (42, Some ''name'') =
     Some \<lparr>st_col_version = 1, st_db_version = 11, st_node_id = 2, st_value = Some ''Bob''\<rparr>"
proof -
  have h1: "record_id alice = record_id bob"
    by (simp add: alice_def bob_def Change_ctor6_def Change_ctor_def)
  have h2: "col_name alice = col_name bob"
    by (simp add: alice_def bob_def Change_ctor6_def Change_ctor_def)
  have h3: "(col_version alice, db_version alice, node_id alice) \<noteq>
     (col_version bob, db_version bob, node_id bob)"
    by (simp add: alice_def bob_def Change_ctor6_def Change_ctor_def)
  have h4: "table (snd (apply_change (snd (apply_change empty_node bob)) alice)) (42, Some ''name'') =
     Some \<lparr>st_col_version = 1, st_db_version = 11, st_node_id = 2, st_value = Some ''Bob''\<rparr>"
    by (simp add: eval_defs alice_def bob_def)
  from apply_commutative[OF h1 h2 h3, of empty_node] h1 h2 h3 h4 show ?thesis by blast
qed

text \<open>
  C3, as the engine has it. The claim holds that the second of two calls \<^verbatim>\<open>apply(c)\<close>
  returns \<^verbatim>\<open>Superseded\<close>. For the stale column edit of record 7, which the tombstone of
  record 7 dominates, the second call returns \<^verbatim>\<open>Ignored\<close>, as the first did.
\<close>

theorem second_apply_ignored:
  "fst (apply_change (snd (apply_change (snd (apply_change empty_node delete7)) stale7)) stale7)
     = Ignored \<and>
   fst (apply_change (snd (apply_change (snd (apply_change empty_node delete7)) stale7)) stale7)
     \<noteq> Superseded"
  by (simp add: eval_defs stale7_def delete7_def)

text \<open>
  C3, amended: \<^verbatim>\<open>apply\<close> is idempotent. For any change \<open>c\<close> and any node, the second of two
  calls \<^verbatim>\<open>apply(c)\<close> leaves the whole state (table, log and clock) as the first call left
  it, and it returns \<^verbatim>\<open>Superseded\<close>, except for a column-level change that the record's
  tombstone dominates: there the second call returns \<^verbatim>\<open>Ignored\<close>.
\<close>

theorem apply_idempotent:
  "snd (apply_change (snd (apply_change s c)) c) = snd (apply_change s c) \<and>
   fst (apply_change (snd (apply_change s c)) c) =
     (if tombstone_dominates s c then Ignored else Superseded)"
  using dominated_write[of c c s] not_wins_own[of c]
  by (auto simp: apply_change_def table_write split: option.splits)

text \<open>
  C4, as the engine has it. The claim holds that, whenever a local entry exists for the
  key, the higher \<^verbatim>\<open>col_version\<close> wins. After column "name" of record 7 was written at
  \<open>col_version = 1\<close> and the record deleted at \<open>col_version = 5\<close>, an edit of that column at
  \<open>col_version = 3\<close> finds a local entry of lower \<^verbatim>\<open>col_version\<close> and yet is \<^verbatim>\<open>Ignored\<close>: the
  entry of \<open>col_version = 1\<close> stays.
\<close>

theorem higher_col_version_ignored:
  "table (apply_all empty_node [edit7_v1, delete7_v5]) (key_of edit7_v3) = Some (stored_of edit7_v1) \<and>
   st_col_version (stored_of edit7_v1) < col_version edit7_v3 \<and>
   fst (apply_change (apply_all empty_node [edit7_v1, delete7_v5]) edit7_v3) = Ignored \<and>
   table (snd (apply_change (apply_all empty_node [edit7_v1, delete7_v5]) edit7_v3)) (key_of edit7_v3)
     = Some (stored_of edit7_v1)"
  by (simp add: eval_defs edit7_v1_def delete7_v5_def edit7_v3_def)

text \<open>
  C4, amended: when a local entry exists for the key of the incoming change and the
  change is not dominated by the record's tombstone, \<^verbatim>\<open>apply\<close> decides by the lexicographic
  comparison of \<open>(col_version, db_version, node_id)\<close>: the change is \<^verbatim>\<open>Applied\<close> and written
  when its triple is strictly above the local one, and \<^verbatim>\<open>Superseded\<close> with the state
  untouched otherwise. And of two changes of one key with equal \<^verbatim>\<open>col_version\<close> and
  \<^verbatim>\<open>db_version\<close>, the one of the lower \<^verbatim>\<open>node_id\<close> never prevails: on any node and in either
  arrival order, the table is the one the change of the higher \<^verbatim>\<open>node_id\<close> alone leaves.
\<close>

theorem apply_lexicographic:
  "(table s (key_of c) = Some e \<and> \<not> tombstone_dominates s c \<longrightarrow>
      apply_change s c =
        (if (st_col_version e, st_db_version e, st_node_id e) < (col_version c, db_version c, node_id c)
         then (Applied, write_state s c) else (Superseded, s))) \<and>
   (key_of c1 = key_of c2 \<and> col_version c1 = col_version c2 \<and> db_version c1 = db_version c2 \<and>
    node_id c1 < node_id c2 \<longrightarrow>
      table (snd (apply_change (snd (apply_change s c1)) c2)) = table (snd (apply_change s c2)) \<and>
      table (snd (apply_change (snd (apply_change s c2)) c1)) = table (snd (apply_change s c2)))"
proof (intro conjI impI)
  assume "table s (key_of c) = Some e \<and> \<not> tombstone_dominates s c"
  then show "apply_change s c =
        (if (st_col_version e, st_db_version e, st_node_id e) < (col_version c, db_version c, node_id c)
         then (Applied, write_state s c) else (Superseded, s))"
    by (simp add: apply_change_def incoming_wins_lex)
next
  assume a: "key_of c1 = key_of c2 \<and> col_version c1 = col_version c2 \<and>
    db_version c1 = db_version c2 \<and> node_id c1 < node_id c2"
  then have k: "key_of c1 = key_of c2" by simp
  from a have w: "incoming_wins c2 (stored_of c1)"
    by (simp add: incoming_wins_def stored_of_def)
  show "table (snd (apply_change (snd (apply_change s c1)) c2)) = table (snd (apply_change s c2))"
    by (rule lower_absorbed_before[OF k w])
  show "table (snd (apply_change (snd (apply_change s c2)) c1)) = table (snd (apply_change s c2))"
    by (rule lower_absorbed_after[OF k w])
qed

text \<open>
  On the node that holds Alice's write, Bob's write finds a local entry, is not dominated,
  has the higher triple and is applied; and of the two writes that differ in the writer
  only, the one of node 2 is what the node ends with, in both orders.
\<close>

theorem apply_lexicographic_witness:
  "table (snd (apply_change empty_node alice)) (key_of bob) = Some (stored_of alice) \<and>
   \<not> tombstone_dominates (snd (apply_change empty_node alice)) bob \<and>
   (st_col_version (stored_of alice), st_db_version (stored_of alice), st_node_id (stored_of alice))
     < (col_version bob, db_version bob, node_id bob) \<and>
   apply_change (snd (apply_change empty_node alice)) bob =
     (Applied, write_state (snd (apply_change empty_node alice)) bob) \<and>
   key_of tie_low = key_of tie_high \<and> col_version tie_low = col_version tie_high \<and>
   db_version tie_low = db_version tie_high \<and> node_id tie_low < node_id tie_high \<and>
   table (snd (apply_change (snd (apply_change (snd (apply_change empty_node alice)) tie_low)) tie_high))
     = table (snd (apply_change (snd (apply_change empty_node alice)) tie_high)) \<and>
   table (snd (apply_change (snd (apply_change (snd (apply_change empty_node alice)) tie_high)) tie_low))
     = table (snd (apply_change (snd (apply_change empty_node alice)) tie_high)) \<and>
   table (snd (apply_change (snd (apply_change empty_node alice)) tie_high)) (key_of tie_high)
     = Some (stored_of tie_high)"
proof -
  have h1: "table (snd (apply_change empty_node alice)) (key_of bob) = Some (stored_of alice)"
    by (simp add: eval_defs alice_def bob_def)
  have h2: "\<not> tombstone_dominates (snd (apply_change empty_node alice)) bob"
    by (simp add: eval_defs alice_def bob_def)
  have h3: "(st_col_version (stored_of alice), st_db_version (stored_of alice),
      st_node_id (stored_of alice)) < (col_version bob, db_version bob, node_id bob)"
    by (simp add: eval_defs alice_def bob_def less_prod_def')
  have h4: "key_of tie_low = key_of tie_high \<and> col_version tie_low = col_version tie_high \<and>
    db_version tie_low = db_version tie_high \<and> node_id tie_low < node_id tie_high"
    by (simp add: eval_defs tie_low_def tie_high_def)
  have h5: "table (snd (apply_change (snd (apply_change empty_node alice)) tie_high)) (key_of tie_high)
     = Some (stored_of tie_high)"
    by (simp add: eval_defs alice_def tie_high_def)
  from apply_lexicographic[of "snd (apply_change empty_node alice)" bob "stored_of alice"
      tie_low tie_high] h1 h2 h3 h4 h5
  show ?thesis by simp
qed

text \<open>
  C5: record-level tombstone dominance. When the record of a column-level change has a
  tombstone entry (the entry under \<open>col_name = None\<close>) whose \<^verbatim>\<open>col_version\<close> is strictly
  greater than the change's, \<^verbatim>\<open>apply\<close> returns \<^verbatim>\<open>Ignored\<close> and leaves the state as it was,
  the tombstone entry and the column's own entry included, whatever version the column's
  entry has.
\<close>

theorem tombstone_dominance:
  assumes "col_name c = Some cn"
    and "table s (record_id c, None) = Some t"
    and "col_version c < st_col_version t"
  shows "apply_change s c = (Ignored, s) \<and>
         table (snd (apply_change s c)) (record_id c, None) = Some t \<and>
         table (snd (apply_change s c)) (key_of c) = table s (key_of c)"
  using assms by (simp add: apply_change_def tombstone_dominates_def)

text \<open>
  The second scenario of the specification: record 7 deleted at \<open>col_version = 2\<close>, then
  the stale edit at \<open>col_version = 1\<close>. The edit is ignored and the record stays deleted.
\<close>

theorem tombstone_dominance_witness:
  "col_name stale7 = Some ''name'' \<and>
   table (snd (apply_change empty_node delete7)) (record_id stale7, None) = Some (stored_of delete7) \<and>
   col_version stale7 < st_col_version (stored_of delete7) \<and>
   st_value (stored_of delete7) = None \<and>
   apply_change (snd (apply_change empty_node delete7)) stale7 =
     (Ignored, snd (apply_change empty_node delete7))"
proof -
  have h1: "col_name stale7 = Some ''name''"
    by (simp add: stale7_def Change_ctor6_def Change_ctor_def)
  have h2: "table (snd (apply_change empty_node delete7)) (record_id stale7, None) =
      Some (stored_of delete7)"
    by (simp add: eval_defs stale7_def delete7_def)
  have h3: "col_version stale7 < st_col_version (stored_of delete7)"
    by (simp add: eval_defs stale7_def delete7_def)
  have h4: "st_value (stored_of delete7) = None"
    by (simp add: eval_defs delete7_def)
  from tombstone_dominance[OF h1 h2 h3] h1 h2 h3 h4 show ?thesis by blast
qed

end
